theory Spec2Isabelle
  imports Complex_Main
begin

section \<open>The pronunciation tutor: feedback engine and practice loop\<close>

text \<open>
  This theory embeds \<^verbatim>\<open>src/python/pronunciation_tutor.py\<close>: the function
  \<^verbatim>\<open>print_feedback\<close> (the feedback engine) and the loop of \<^verbatim>\<open>main\<close> (the session
  controller) with the wrappers it calls.

  Conventions of the embedding.
  \<^item> A score is a JSON number, that is a Python \<^verbatim>\<open>int\<close> or \<^verbatim>\<open>float\<close>. Both are modelled
    by the real number they denote: Python compares numbers by value, so
    \<^verbatim>\<open>overall >= 90\<close> is the comparison of reals. NaN is not a value of the model.
  \<^item> The dictionaries decoded from the services' JSON are read with \<^verbatim>\<open>.get(key, default)\<close>
    only. A dictionary is modelled by a record with one optional field for each key the
    code reads: \<open>None\<close> is an absent key, \<open>Some v\<close> a key bound to a value of the type
    the service documents. Values of another type (a string where a number is expected,
    \<^verbatim>\<open>null\<close>) are outside the types of the model.
  \<^item> \<^verbatim>\<open>print_feedback\<close> returns nothing and writes its report to standard output. The
    model returns the values it prints, in printing order, as a record; the layout of
    the lines (padding, the number of decimals) is not modelled.
  \<^item> A line read from standard input is a list of Unicode code points, with Python's
    own white space and decimal digits.
\<close>

subsection \<open>Dictionaries of the assessment and transcription services\<close>

record phoneme_dict =
  p_phoneme :: "string option"
  p_score :: "real option"

record word_dict =
  w_word :: "string option"
  w_score :: "real option"
  w_phonemes :: "phoneme_dict list option"

record assessment_dict =
  a_overallScore :: "real option"
  a_words :: "word_dict list option"

record transcription_dict =
  t_text :: "string option"
  t_language :: "string option"

text \<open>\<^verbatim>\<open>d.get(key, default)\<close> on a field of such a record.\<close>

definition dict_get :: "'a option \<Rightarrow> 'a \<Rightarrow> 'a" where
  "dict_get field dflt = (case field of None \<Rightarrow> dflt | Some v \<Rightarrow> v)"

subsection \<open>What \<^verbatim>\<open>print_feedback\<close> prints\<close>

text \<open>
  One line of the per-word table (source line 198): the word, its score, the list
  \<^verbatim>\<open>phoneme_parts\<close> (each part \<^verbatim>\<open>f"{ph}={ps:.0f}"\<close> kept as the pair \<open>(ph, ps)\<close>) and the
  marker, which is \<^verbatim>\<open>" *"\<close> or the empty string.
\<close>

record word_row =
  row_word :: string
  row_score :: real
  row_phoneme_parts :: "(string \<times> real) list"
  row_marker :: string

text \<open>
  The report, in the order of the print statements: the overall score and the grade
  (line 171), the target and the transcribed text (lines 172-173), the table rows
  (line 198), the entries of \<^verbatim>\<open>weak_phonemes\<close> listed under FOCUS AREAS when there are
  any (lines 201-204), and the closing message (lines 206-211).
\<close>

record report =
  rep_overall :: real
  rep_grade :: string
  rep_target :: string
  rep_you_said :: string
  rep_rows :: "word_row list"
  rep_weak_phonemes :: "(string \<times> string \<times> real) list"
  rep_closing :: string

subsection \<open>The feedback engine\<close>

text \<open>Lines 160-169: the if/elif chain that sets \<^verbatim>\<open>grade\<close>.\<close>

definition grade_of :: "real \<Rightarrow> string" where
  "grade_of overall =
     (if overall \<ge> 90 then ''Excellent''
      else if overall \<ge> 75 then ''Good''
      else if overall \<ge> 60 then ''Fair''
      else if overall \<ge> 40 then ''Needs Work''
      else ''Keep Practicing'')"

text \<open>Line 187: \<^verbatim>\<open>marker = " *" if score < 70 else ""\<close>.\<close>

definition marker_of :: "real \<Rightarrow> string" where
  "marker_of score = (if score < 70 then '' *'' else '''')"

text \<open>
  Lines 189-195, the inner loop over the phonemes of one word. The loop state is the
  pair of the two lists it appends to: \<^verbatim>\<open>phoneme_parts\<close>, local to the word, and
  \<^verbatim>\<open>weak_phonemes\<close>, shared by all words.
\<close>

fun phoneme_loop ::
  "string \<Rightarrow> phoneme_dict list
     \<Rightarrow> (string \<times> real) list \<times> (string \<times> string \<times> real) list
     \<Rightarrow> (string \<times> real) list \<times> (string \<times> string \<times> real) list" where
  "phoneme_loop word [] (phoneme_parts, weak_phonemes) = (phoneme_parts, weak_phonemes)"
| "phoneme_loop word (p # phonemes) (phoneme_parts, weak_phonemes) =
     (let ph = dict_get (p_phoneme p) '''';
          ps = dict_get (p_score p) 0
      in phoneme_loop word phonemes
           (phoneme_parts @ [(ph, ps)],
            if ps < 60 then weak_phonemes @ [(word, ph, ps)] else weak_phonemes))"

text \<open>
  Lines 181-198, the outer loop over \<^verbatim>\<open>words\<close>. The loop state is the list of table
  lines printed so far and \<^verbatim>\<open>weak_phonemes\<close>.
\<close>

fun word_loop ::
  "word_dict list
     \<Rightarrow> word_row list \<times> (string \<times> string \<times> real) list
     \<Rightarrow> word_row list \<times> (string \<times> string \<times> real) list" where
  "word_loop [] (rows, weak_phonemes) = (rows, weak_phonemes)"
| "word_loop (w # words) (rows, weak_phonemes) =
     (let word = dict_get (w_word w) '''';
          score = dict_get (w_score w) 0;
          phonemes = dict_get (w_phonemes w) [];
          marker = marker_of score;
          (phoneme_parts, weak_phonemes') = phoneme_loop word phonemes ([], weak_phonemes)
      in word_loop words
           (rows @ [\<lparr>row_word = word, row_score = score,
                      row_phoneme_parts = phoneme_parts, row_marker = marker\<rparr>],
            weak_phonemes'))"

text \<open>Lines 206-211: the closing message, the argument of the print that runs.\<close>

definition closing_of :: "real \<Rightarrow> string" where
  "closing_of overall =
     (if overall \<ge> 90 then CHR 0x0A # ''  Great job! Try a harder sentence.''
      else if overall \<ge> 70
        then CHR 0x0A # ''  Good progress! Focus on the starred (*) words above.''
      else CHR 0x0A #
        ''  Tip: Listen to the reference audio again, then try speaking more slowly.'')"

text \<open>Lines 149-213.\<close>

definition print_feedback :: "assessment_dict \<Rightarrow> transcription_dict \<Rightarrow> string \<Rightarrow> report" where
  "print_feedback assessment transcription reference =
     (let overall = dict_get (a_overallScore assessment) 0;
          words = dict_get (a_words assessment) [];
          transcribed = dict_get (t_text transcription) '''';
          grade = grade_of overall;
          (rows, weak_phonemes) = word_loop words ([], [])
      in \<lparr>rep_overall = overall, rep_grade = grade, rep_target = reference,
          rep_you_said = transcribed, rep_rows = rows,
          rep_weak_phonemes = weak_phonemes, rep_closing = closing_of overall\<rparr>)"

subsection \<open>Strings: \<^verbatim>\<open>strip\<close>, \<^verbatim>\<open>lower\<close> and \<^verbatim>\<open>int\<close>\<close>

text \<open>
  A Python \<^verbatim>\<open>str\<close> is a sequence of Unicode code points, and the line read at the prompt
  can hold any of them. Such a text is modelled by the list of its code points, each a
  natural number; the texts the program itself holds (the sentences, the file names)
  are ASCII and stay values of \<^typ>\<open>string\<close>. The tables of white space and of decimal
  digits below are those of Unicode 14, read from CPython 3.11.
\<close>

text \<open>The code points of an ASCII text of the program.\<close>

definition str_of :: "string \<Rightarrow> nat list" where
  "str_of s = map of_char s"

text \<open>
  \<^verbatim>\<open>str.isspace\<close> on one character: the six ASCII blanks and the four separators 28 to
  31, then next line, no-break space, Ogham space mark, the spaces U+2000 to U+200A,
  line and paragraph separator, narrow no-break space, medium mathematical space and
  ideographic space.
\<close>

definition isspace :: "nat \<Rightarrow> bool" where
  "isspace c =
     (c \<in> set [0x9, 0xA, 0xB, 0xC, 0xD, 0x1C, 0x1D, 0x1E, 0x1F, 0x20, 0x85, 0xA0, 0x1680,
                0x2000, 0x2001, 0x2002, 0x2003, 0x2004, 0x2005, 0x2006, 0x2007, 0x2008,
                0x2009, 0x200A, 0x2028, 0x2029, 0x202F, 0x205F, 0x3000])"

text \<open>The characters of a class removed at both ends.\<close>

definition strip_by :: "(nat \<Rightarrow> bool) \<Rightarrow> nat list \<Rightarrow> nat list" where
  "strip_by space s = rev (dropWhile space (rev (dropWhile space s)))"

text \<open>\<^verbatim>\<open>str.strip()\<close>: white space removed at both ends.\<close>

definition strip :: "nat list \<Rightarrow> nat list" where
  "strip s = strip_by isspace s"

text \<open>
  The lowercase of one character. The capital letters A to Z become a to z. Two
  characters outside ASCII have a lowercase with an ASCII letter in it: the capital I
  with dot above (U+0130), which becomes i followed by the combining dot U+0307, and the
  Kelvin sign (U+212A), which becomes k. Every other character is kept as it is: where
  Python replaces a cased letter outside ASCII, it replaces it by characters outside
  ASCII, so that the lowered text is equal to a given ASCII text (all the loop asks of
  it) exactly when the text of the model is.
\<close>

definition lower_cp :: "nat \<Rightarrow> nat list" where
  "lower_cp c =
     (if 0x41 \<le> c \<and> c \<le> 0x5A then [c + 0x20]
      else if c = 0x130 then [0x69, 0x307]
      else if c = 0x212A then [0x6B]
      else [c])"

text \<open>\<^verbatim>\<open>str.lower()\<close>.\<close>

definition lower :: "nat list \<Rightarrow> nat list" where
  "lower s = concat (map lower_cp s)"

text \<open>
  The decimal digits of Unicode come in runs of ten, from a zero to a nine: the code
  points of the zeros, from the ASCII digits over the Arabic-Indic and the full-width
  digits to the digits of the legacy computing block.
\<close>

definition decimal_zeros :: "nat list" where
  "decimal_zeros =
     [0x30, 0x660, 0x6F0, 0x7C0, 0x966, 0x9E6, 0xA66, 0xAE6, 0xB66, 0xBE6, 0xC66, 0xCE6,
      0xD66, 0xDE6, 0xE50, 0xED0, 0xF20, 0x1040, 0x1090, 0x17E0, 0x1810, 0x1946, 0x19D0,
      0x1A80, 0x1A90, 0x1B50, 0x1BB0, 0x1C40, 0x1C50, 0xA620, 0xA8D0, 0xA900, 0xA9D0,
      0xA9F0, 0xAA50, 0xABF0, 0xFF10, 0x104A0, 0x10D30, 0x11066, 0x110F0, 0x11136,
      0x111D0, 0x112F0, 0x11450, 0x114D0, 0x11650, 0x116C0, 0x11730, 0x118E0, 0x11950,
      0x11C50, 0x11D50, 0x11DA0, 0x16A60, 0x16AC0, 0x16B50, 0x1D7CE, 0x1D7D8, 0x1D7E2,
      0x1D7EC, 0x1D7F6, 0x1E140, 0x1E2F0, 0x1E950, 0x1FBF0]"

text \<open>The value of a character that \<^verbatim>\<open>int\<close> reads as a decimal digit.\<close>

definition digit_val :: "nat \<Rightarrow> nat option" where
  "digit_val c =
     (case find (\<lambda>zero. zero \<le> c \<and> c < zero + 10) decimal_zeros of
        None \<Rightarrow> None
      | Some zero \<Rightarrow> Some (c - zero))"

text \<open>
  The white space \<^verbatim>\<open>int\<close> skips around a literal: that of \<^verbatim>\<open>str.isspace\<close> but for the
  four separators 28 to 31.
\<close>

definition int_space :: "nat \<Rightarrow> bool" where
  "int_space c = (isspace c \<and> \<not> (0x1C \<le> c \<and> c \<le> 0x1F))"

text \<open>
  The digits of a decimal literal after its first digit, with the value read so far:
  an underscore (code point 95) is accepted between two digits only.
\<close>

fun py_digits :: "nat list \<Rightarrow> nat \<Rightarrow> nat option" where
  "py_digits [] acc = Some acc"
| "py_digits [c] acc =
     (case digit_val c of None \<Rightarrow> None | Some v \<Rightarrow> Some (10 * acc + v))"
| "py_digits (c # d # cs) acc =
     (if c = 0x5F
      then (case digit_val d of None \<Rightarrow> None | Some v \<Rightarrow> py_digits cs (10 * acc + v))
      else (case digit_val c of None \<Rightarrow> None | Some v \<Rightarrow> py_digits (d # cs) (10 * acc + v)))"

definition py_unsigned :: "nat list \<Rightarrow> nat option" where
  "py_unsigned s =
     (case s of
        [] \<Rightarrow> None
      | c # cs \<Rightarrow> (case digit_val c of None \<Rightarrow> None | Some v \<Rightarrow> py_digits cs v))"

text \<open>
  \<^verbatim>\<open>int(s)\<close> in base 10: surrounding white space, an optional sign (minus is code point
  45, plus 43), then the digits. \<open>None\<close> is the \<^verbatim>\<open>ValueError\<close> Python raises on any
  other text. Python also raises it on a literal of more than 4300 digits, which the
  model reads as a number; such a number is far outside the catalog, and the loop
  treats both in the same way.
\<close>

definition py_int :: "nat list \<Rightarrow> int option" where
  "py_int s =
     (case strip_by int_space s of
        [] \<Rightarrow> None
      | c # cs \<Rightarrow>
          if c = 0x2D then map_option (\<lambda>n. - int n) (py_unsigned cs)
          else if c = 0x2B then map_option int (py_unsigned cs)
          else map_option int (py_unsigned (c # cs)))"

text \<open>Line 234: the tuple of the quit tokens.\<close>

definition quit_tokens :: "nat list list" where
  "quit_tokens = map str_of [''q'', ''quit'', ''exit'']"

subsection \<open>The sentence catalog\<close>

text \<open>Lines 46-54.\<close>

definition SENTENCES :: "string list" where
  "SENTENCES =
     [''Hello, how are you?'',
      ''The weather is nice today.'',
      ''She sells seashells by the seashore.'',
      ''I would like a cup of coffee, please.'',
      ''The quick brown fox jumps over the lazy dog.'',
      ''Peter Piper picked a peck of pickled peppers.'',
      ''How much wood would a woodchuck chuck if a woodchuck could chuck wood?'']"

subsection \<open>The environment of one pass through the loop\<close>

text \<open>
  The exceptions the loop can meet. \<open>HTTPError\<close> is \<^verbatim>\<open>httpx.HTTPError\<close>, raised by
  \<^verbatim>\<open>httpx.post\<close> on a transport failure and by \<^verbatim>\<open>raise_for_status\<close> on a non-success
  response: the only exception the loop and \<^verbatim>\<open>tts_synthesize\<close> catch. \<open>EOFError\<close> is
  raised by \<^verbatim>\<open>input\<close> at the end of standard input. \<open>OtherError\<close> is any other
  exception of a call (a file that cannot be opened, a body that is not JSON); nothing
  catches it.
\<close>

datatype exn = HTTPError string | EOFError | OtherError string

text \<open>
  Everything outside the program that one pass through the loop reads:
  \<^item> \<open>choice_line\<close>: the line \<^verbatim>\<open>input\<close> returns at the prompt (line 232);
  \<^item> \<open>tts_request\<close>: the outcome of the body of the \<^verbatim>\<open>try\<close> of \<^verbatim>\<open>tts_synthesize\<close>
    (lines 64-72: the request, its status check and the write of the file) for a
    text, a voice, a speed and an output path; \<open>None\<close> when it completes, otherwise
    the exception raised;
  \<^item> \<open>enter_line\<close>: the line \<^verbatim>\<open>input\<close> returns in \<^verbatim>\<open>record_audio\<close> (line 137), \<open>None\<close>
    at the end of input;
  \<^item> \<open>path_exists\<close>: \<^verbatim>\<open>os.path.exists\<close> at that moment (line 139);
  \<^item> \<open>stt_request\<close>: what the body of \<^verbatim>\<open>stt_transcribe\<close> (lines 81-91) returns or
    raises for an audio path;
  \<^item> \<open>assess_request\<close>: the same for \<^verbatim>\<open>pronunciation_assess\<close> (lines 96-106), for an
    audio path and a reference text.
\<close>

record world =
  choice_line :: "nat list"
  tts_request :: "string \<Rightarrow> string \<Rightarrow> real \<Rightarrow> string \<Rightarrow> exn option"
  enter_line :: "nat list option"
  path_exists :: "string \<Rightarrow> bool"
  stt_request :: "string \<Rightarrow> exn + transcription_dict"
  assess_request :: "string \<Rightarrow> string \<Rightarrow> exn + assessment_dict"

text \<open>
  The lines the loop and the wrappers print, one constructor for each print; the four
  prints of the banner (lines 221-224) are the one constructor \<open>Banner\<close>.
\<close>

datatype msg =
    Blank
  | Banner
  | Available_sentences
  | Listed nat string
  | Goodbye
  | Please_enter_a_number nat
  | Target string
  | Step1_generating
  | Reference_saved string
  | Play_this_file
  | Could_not_generate_continuing
  | TTS_error string
  | Step2_record
  | Recording_placeholder real
  | Place_your_file string
  | Then_press_enter
  | Countdown nat
  | File_not_found string
  | Skipping_no_recording
  | Step3_transcribing
  | STT_error string
  | Step4_scoring
  | Assessment_error string

text \<open>
  What a run does, in order: the lines printed, the two reads of standard input, the
  one-second sleeps of the countdown, and the calls of the five functions of the
  practice loop with their arguments (\<open>Print_feedback\<close> carries the report the call prints).
\<close>

datatype event =
    Print msg
  | Input_choice
  | Input_enter
  | Sleep
  | Tts_synthesize string string
  | Record_audio string real
  | Stt_transcribe string
  | Pronunciation_assess string string
  | Print_feedback report

text \<open>
  How a pass through the loop body ends: \<open>Continue\<close> is back at the head of the
  \<^verbatim>\<open>while\<close>, where the next selection is read; \<open>Break\<close> leaves the loop.
\<close>

datatype ctl = Continue | Break

text \<open>A step of the body: the events it adds, and the exception it raises or its value.\<close>

type_synonym 'a step = "event list \<times> (exn + 'a)"

definition after :: "event list \<Rightarrow> 'a step \<Rightarrow> 'a step" where
  "after evs s = (evs @ fst s, snd s)"

subsection \<open>The wrappers\<close>

text \<open>Lines 61-76. \<^verbatim>\<open>httpx.HTTPError\<close> is caught, printed and turned into \<^verbatim>\<open>False\<close>.\<close>

definition tts_synthesize :: "world \<Rightarrow> string \<Rightarrow> string \<Rightarrow> string \<Rightarrow> real \<Rightarrow> bool step" where
  "tts_synthesize w text output_path voice speed =
     (case tts_request w text voice speed output_path of
        None \<Rightarrow> ([], Inr True)
      | Some (HTTPError e) \<Rightarrow> ([Print (TTS_error e)], Inr False)
      | Some x \<Rightarrow> ([], Inl x))"

text \<open>Lines 79-91 and 94-106: no handler, the outcome of the body is the outcome of the call.\<close>

definition stt_transcribe :: "world \<Rightarrow> string \<Rightarrow> transcription_dict step" where
  "stt_transcribe w audio_path = ([], stt_request w audio_path)"

definition pronunciation_assess :: "world \<Rightarrow> string \<Rightarrow> string \<Rightarrow> assessment_dict step" where
  "pronunciation_assess w audio_path reference_text =
     ([], assess_request w audio_path reference_text)"

text \<open>
  Lines 132-135: \<^verbatim>\<open>range(int(duration), 0, -1)\<close>. \<^verbatim>\<open>int\<close> truncates towards zero, and the
  range is empty unless its start is positive.
\<close>

definition countdown :: "real \<Rightarrow> nat list" where
  "countdown duration = rev [1 ..< Suc (nat \<lfloor>duration\<rfloor>)]"

text \<open>Lines 113-142.\<close>

definition record_audio :: "world \<Rightarrow> string \<Rightarrow> real \<Rightarrow> bool step" where
  "record_audio w output_path duration =
     after
       ([Print (Recording_placeholder duration), Print (Place_your_file output_path),
         Print Then_press_enter]
        @ concat (map (\<lambda>remaining. [Print (Countdown remaining), Sleep]) (countdown duration))
        @ [Print Blank, Input_enter])
       (case enter_line w of
          None \<Rightarrow> ([], Inl EOFError)
        | Some _ \<Rightarrow>
            if \<not> path_exists w output_path
            then ([Print (File_not_found output_path)], Inr False)
            else ([], Inr True))"

subsection \<open>The practice loop\<close>

text \<open>
  The body of the \<^verbatim>\<open>while\<close> of \<^verbatim>\<open>main\<close> (lines 231-282), written from its last step to
  its first: each definition is the rest of the body from the step it names.
\<close>

text \<open>Line 282, step 5.\<close>

definition from_step5 :: "string \<Rightarrow> transcription_dict \<Rightarrow> assessment_dict \<Rightarrow> ctl step" where
  "from_step5 sentence transcription assessment =
     ([Print_feedback (print_feedback assessment transcription sentence)], Inr Continue)"

text \<open>Lines 273-279, step 4.\<close>

definition from_step4 :: "world \<Rightarrow> string \<Rightarrow> string \<Rightarrow> transcription_dict \<Rightarrow> ctl step" where
  "from_step4 w sentence user_audio transcription =
     after [Print Step4_scoring, Pronunciation_assess user_audio sentence]
       (case pronunciation_assess w user_audio sentence of
          (evs, Inr assessment) \<Rightarrow> after evs (from_step5 sentence transcription assessment)
        | (evs, Inl (HTTPError e)) \<Rightarrow> (evs @ [Print (Assessment_error e)], Inr Continue)
        | (evs, Inl x) \<Rightarrow> (evs, Inl x))"

text \<open>Lines 265-271, step 3.\<close>

definition from_step3 :: "world \<Rightarrow> string \<Rightarrow> string \<Rightarrow> ctl step" where
  "from_step3 w sentence user_audio =
     after [Print Step3_transcribing, Stt_transcribe user_audio]
       (case stt_transcribe w user_audio of
          (evs, Inr transcription) \<Rightarrow> after evs (from_step4 w sentence user_audio transcription)
        | (evs, Inl (HTTPError e)) \<Rightarrow> (evs @ [Print (STT_error e)], Inr Continue)
        | (evs, Inl x) \<Rightarrow> (evs, Inl x))"

text \<open>Lines 258-263, step 2.\<close>

definition from_step2 :: "world \<Rightarrow> string \<Rightarrow> ctl step" where
  "from_step2 w sentence =
     (let user_audio = ''user_recording.wav'' in
      after [Print Step2_record, Record_audio user_audio 5]
        (case record_audio w user_audio 5 of
           (evs, Inr recorded) \<Rightarrow>
             if \<not> recorded then (evs @ [Print Skipping_no_recording], Inr Continue)
             else after evs (from_step3 w sentence user_audio)
         | (evs, Inl x) \<Rightarrow> (evs, Inl x)))"

text \<open>Lines 249-256, step 1. The voice is the default of \<^verbatim>\<open>tts_synthesize\<close>.\<close>

definition from_step1 :: "world \<Rightarrow> string \<Rightarrow> ctl step" where
  "from_step1 w sentence =
     (let ref_audio = ''reference_audio.wav'' in
      after [Print Step1_generating, Tts_synthesize sentence ref_audio]
        (case tts_synthesize w sentence ref_audio ''af_heart'' (9 / 10) of
           (evs, Inr generated) \<Rightarrow>
             after
               (evs @ (if generated then [Print (Reference_saved ref_audio), Print Play_this_file]
                       else [Print Could_not_generate_continuing]))
               (from_step2 w sentence)
         | (evs, Inl x) \<Rightarrow> (evs, Inl x)))"

text \<open>
  Lines 238-244: the index of the selection, or \<open>None\<close> when the \<^verbatim>\<open>ValueError\<close> handler
  runs, for a text \<^verbatim>\<open>int\<close> rejects and for an index outside the catalog.
\<close>

definition select_index :: "nat list \<Rightarrow> int option" where
  "select_index choice =
     (case py_int choice of
        None \<Rightarrow> None
      | Some n \<Rightarrow>
          (let idx = n - 1
           in if idx < 0 \<or> idx \<ge> int (length SENTENCES) then None else Some idx))"

text \<open>Lines 231-282: one pass through the body of the loop.\<close>

definition loop_body :: "world \<Rightarrow> ctl step" where
  "loop_body w =
     after [Print Blank, Input_choice]
       (let choice = strip (choice_line w) in
        if lower choice \<in> set quit_tokens
        then ([Print Goodbye], Inr Break)
        else
          (case select_index choice of
             None \<Rightarrow> ([Print (Please_enter_a_number (length SENTENCES))], Inr Continue)
           | Some idx \<Rightarrow>
               (let sentence = SENTENCES ! nat idx
                in after [Print (Target sentence)] (from_step1 w sentence))))"

text \<open>
  Lines 230-282: the loop. A run is determined by the environments of its passes, in
  order; when they are used up standard input is at its end, and the \<^verbatim>\<open>input\<close> of the
  prompt raises \<^verbatim>\<open>EOFError\<close>. The loop returns when a pass breaks.
\<close>

fun main_loop :: "world list \<Rightarrow> unit step" where
  "main_loop [] = ([Print Blank, Input_choice], Inl EOFError)"
| "main_loop (w # ws) =
     (case loop_body w of
        (evs, Inl x) \<Rightarrow> (evs, Inl x)
      | (evs, Inr Break) \<Rightarrow> (evs, Inr ())
      | (evs, Inr Continue) \<Rightarrow> after evs (main_loop ws))"

text \<open>Lines 220-282.\<close>

definition main :: "world list \<Rightarrow> unit step" where
  "main ws =
     after
       ([Print Banner, Print Available_sentences]
        @ map (\<lambda>(i, sentence). Print (Listed (Suc i) sentence)) (enumerate 0 SENTENCES))
       (main_loop ws)"

subsection \<open>Reading a trace\<close>

text \<open>Whether an event is the call of one of the functions of steps 2 to 5.\<close>

fun is_record :: "event \<Rightarrow> bool" where
  "is_record (Record_audio _ _) = True"
| "is_record _ = False"

fun is_transcribe :: "event \<Rightarrow> bool" where
  "is_transcribe (Stt_transcribe _) = True"
| "is_transcribe _ = False"

fun is_assess :: "event \<Rightarrow> bool" where
  "is_assess (Pronunciation_assess _ _) = True"
| "is_assess _ = False"

fun is_feedback :: "event \<Rightarrow> bool" where
  "is_feedback (Print_feedback _) = True"
| "is_feedback _ = False"

subsection \<open>Notions the properties are stated with\<close>

text \<open>
  Every triple (word, phoneme, score) of an assessment's words, as the two nested
  loops read them: word after word, and the phonemes of a word in their order.
\<close>

definition all_triples :: "word_dict list \<Rightarrow> (string \<times> string \<times> real) list" where
  "all_triples words =
     concat (map (\<lambda>w. map (\<lambda>p. (dict_get (w_word w) '''', dict_get (p_phoneme p) '''',
                                  dict_get (p_score p) 0))
                          (dict_get (w_phonemes w) []))
                 words)"

text \<open>A table line is flagged when it carries the star.\<close>

definition flagged :: "word_row \<Rightarrow> bool" where
  "flagged row = (row_marker row = '' *'')"

text \<open>
  The dictionaries with every absent key bound to the default its \<^verbatim>\<open>.get\<close> names:
  score 0, empty text, empty list.
\<close>

definition fill_phoneme :: "phoneme_dict \<Rightarrow> phoneme_dict" where
  "fill_phoneme p =
     \<lparr>p_phoneme = Some (dict_get (p_phoneme p) ''''), p_score = Some (dict_get (p_score p) 0)\<rparr>"

definition fill_word :: "word_dict \<Rightarrow> word_dict" where
  "fill_word w =
     \<lparr>w_word = Some (dict_get (w_word w) ''''), w_score = Some (dict_get (w_score w) 0),
      w_phonemes = Some (map fill_phoneme (dict_get (w_phonemes w) []))\<rparr>"

definition fill_assessment :: "assessment_dict \<Rightarrow> assessment_dict" where
  "fill_assessment a =
     \<lparr>a_overallScore = Some (dict_get (a_overallScore a) 0),
      a_words = Some (map fill_word (dict_get (a_words a) []))\<rparr>"




text \<open>The table line the outer loop prints for one word (lines 182-198).\<close>

definition row_of :: "word_dict \<Rightarrow> word_row" where
  "row_of w =
     \<lparr>row_word = dict_get (w_word w) '''',
      row_score = dict_get (w_score w) 0,
      row_phoneme_parts =
        map (\<lambda>p. (dict_get (p_phoneme p) '''', dict_get (p_score p) 0))
            (dict_get (w_phonemes w) []),
      row_marker = marker_of (dict_get (w_score w) 0)\<rparr>"

subsection \<open>A sample run\<close>

text \<open>
  The assessment of the end-to-end scenario of the specification, a transcription, and
  an environment in which every collaborator succeeds: the prompt reads the given ASCII line,
  the synthesis request completes, Enter is pressed, the recording exists, and the two
  services return the sample dictionaries. The witnesses vary it by one field.
\<close>

definition sample_assessment :: assessment_dict where
  "sample_assessment =
     \<lparr>a_overallScore = Some 92,
      a_words = Some
        [\<lparr>w_word = Some ''fox'', w_score = Some 95,
          w_phonemes = Some [\<lparr>p_phoneme = Some ''f'', p_score = Some 98\<rparr>,
                             \<lparr>p_phoneme = Some ''ks'', p_score = Some 55\<rparr>]\<rparr>]\<rparr>"

definition sample_transcription :: transcription_dict where
  "sample_transcription = \<lparr>t_text = Some ''fox'', t_language = Some ''en''\<rparr>"

definition sample_world :: "string \<Rightarrow> world" where
  "sample_world line =
     \<lparr>choice_line = str_of line,
      tts_request = (\<lambda>text voice speed output_path. None),
      enter_line = Some [],
      path_exists = (\<lambda>path. True),
      stt_request = (\<lambda>audio_path. Inr sample_transcription),
      assess_request = (\<lambda>audio_path reference_text. Inr sample_assessment)\<rparr>"

section \<open>Properties of the feedback engine\<close>

subsection \<open>The two loops, in closed form\<close>

lemma phoneme_loop_parts:
  "fst (phoneme_loop word ps (parts, weak)) =
     parts @ map (\<lambda>p. (dict_get (p_phoneme p) '''', dict_get (p_score p) 0)) ps"
  by (induction ps arbitrary: parts weak) (simp_all add: Let_def)

lemma phoneme_loop_weak:
  "snd (phoneme_loop word ps (parts, weak)) =
     weak @ filter (\<lambda>x. snd (snd x) < 60)
              (map (\<lambda>p. (word, dict_get (p_phoneme p) '''', dict_get (p_score p) 0)) ps)"
  by (induction ps arbitrary: parts weak) (simp_all add: Let_def)

lemma word_loop_rows:
  "fst (word_loop ws (rows, weak)) = rows @ map row_of ws"
proof (induction ws arbitrary: rows weak)
  case Nil
  show ?case by simp
next
  case (Cons w ws)
  show ?case
    using phoneme_loop_parts [of "dict_get (w_word w) ''''" "dict_get (w_phonemes w) []" "[]" weak]
    by (simp add: Let_def split_beta Cons.IH row_of_def)
qed

lemma word_loop_weak:
  "snd (word_loop ws (rows, weak)) = weak @ filter (\<lambda>x. snd (snd x) < 60) (all_triples ws)"
proof (induction ws arbitrary: rows weak)
  case Nil
  show ?case by (simp add: all_triples_def)
next
  case (Cons w ws)
  have step: "all_triples (w # ws) =
      map (\<lambda>p. (dict_get (w_word w) '''', dict_get (p_phoneme p) '''', dict_get (p_score p) 0))
          (dict_get (w_phonemes w) []) @ all_triples ws"
    by (simp add: all_triples_def)
  show ?case
    using phoneme_loop_weak [of "dict_get (w_word w) ''''" "dict_get (w_phonemes w) []" "[]" weak]
    by (simp add: Let_def split_beta Cons.IH step)
qed

lemma word_loop_eq:
  "word_loop ws ([], []) = (map row_of ws, filter (\<lambda>x. snd (snd x) < 60) (all_triples ws))"
  using word_loop_rows [of ws "[]" "[]"] word_loop_weak [of ws "[]" "[]"]
  by (simp add: prod_eq_iff)

lemma print_feedback_eq:
  "print_feedback a t r =
     \<lparr>rep_overall = dict_get (a_overallScore a) 0,
      rep_grade = grade_of (dict_get (a_overallScore a) 0),
      rep_target = r,
      rep_you_said = dict_get (t_text t) '''',
      rep_rows = map row_of (dict_get (a_words a) []),
      rep_weak_phonemes = filter (\<lambda>x. snd (snd x) < 60) (all_triples (dict_get (a_words a) [])),
      rep_closing = closing_of (dict_get (a_overallScore a) 0)\<rparr>"
  by (simp add: print_feedback_def Let_def word_loop_eq)

lemma row_of_fill_word: "row_of (fill_word w) = row_of w"
  by (simp add: row_of_def fill_word_def fill_phoneme_def dict_get_def comp_def)

lemma all_triples_fill: "all_triples (map fill_word ws) = all_triples ws"
  by (simp add: all_triples_def fill_word_def fill_phoneme_def dict_get_def comp_def)

subsection \<open>Grade\<close>

text \<open>
  Claim C1. For every overall score the printed grade is defined and follows the
  descending bands, each closed at its lower bound: from 90 Excellent, from 75 Good,
  from 60 Fair, from 40 Needs Work, below 40 Keep Practicing. The five cases cover the
  reals, so every score has exactly one grade.
\<close>

theorem grade_bands:
  assumes "a_overallScore a = Some s"
  shows "(90 \<le> s \<longrightarrow> rep_grade (print_feedback a t r) = ''Excellent'')
       \<and> (75 \<le> s \<and> s < 90 \<longrightarrow> rep_grade (print_feedback a t r) = ''Good'')
       \<and> (60 \<le> s \<and> s < 75 \<longrightarrow> rep_grade (print_feedback a t r) = ''Fair'')
       \<and> (40 \<le> s \<and> s < 60 \<longrightarrow> rep_grade (print_feedback a t r) = ''Needs Work'')
       \<and> (s < 40 \<longrightarrow> rep_grade (print_feedback a t r) = ''Keep Practicing'')"
  using assms by (simp add: print_feedback_eq grade_of_def dict_get_def)

text \<open>The eight boundary scores of the specification.\<close>

theorem grade_bands_witness:
  "rep_grade (print_feedback \<lparr>a_overallScore = Some 90, a_words = None\<rparr>
                \<lparr>t_text = None, t_language = None\<rparr> '''') = ''Excellent''
 \<and> rep_grade (print_feedback \<lparr>a_overallScore = Some 89.99, a_words = None\<rparr>
                \<lparr>t_text = None, t_language = None\<rparr> '''') = ''Good''
 \<and> rep_grade (print_feedback \<lparr>a_overallScore = Some 75, a_words = None\<rparr>
                \<lparr>t_text = None, t_language = None\<rparr> '''') = ''Good''
 \<and> rep_grade (print_feedback \<lparr>a_overallScore = Some 74.99, a_words = None\<rparr>
                \<lparr>t_text = None, t_language = None\<rparr> '''') = ''Fair''
 \<and> rep_grade (print_feedback \<lparr>a_overallScore = Some 60, a_words = None\<rparr>
                \<lparr>t_text = None, t_language = None\<rparr> '''') = ''Fair''
 \<and> rep_grade (print_feedback \<lparr>a_overallScore = Some 59.99, a_words = None\<rparr>
                \<lparr>t_text = None, t_language = None\<rparr> '''') = ''Needs Work''
 \<and> rep_grade (print_feedback \<lparr>a_overallScore = Some 40, a_words = None\<rparr>
                \<lparr>t_text = None, t_language = None\<rparr> '''') = ''Needs Work''
 \<and> rep_grade (print_feedback \<lparr>a_overallScore = Some 39.99, a_words = None\<rparr>
                \<lparr>t_text = None, t_language = None\<rparr> '''') = ''Keep Practicing''"
  using grade_bands [of "\<lparr>a_overallScore = Some 90, a_words = None\<rparr>" 90]
        grade_bands [of "\<lparr>a_overallScore = Some 89.99, a_words = None\<rparr>" "89.99"]
        grade_bands [of "\<lparr>a_overallScore = Some 75, a_words = None\<rparr>" 75]
        grade_bands [of "\<lparr>a_overallScore = Some 74.99, a_words = None\<rparr>" "74.99"]
        grade_bands [of "\<lparr>a_overallScore = Some 60, a_words = None\<rparr>" 60]
        grade_bands [of "\<lparr>a_overallScore = Some 59.99, a_words = None\<rparr>" "59.99"]
        grade_bands [of "\<lparr>a_overallScore = Some 40, a_words = None\<rparr>" 40]
        grade_bands [of "\<lparr>a_overallScore = Some 39.99, a_words = None\<rparr>" "39.99"]
  by simp

subsection \<open>Closing message\<close>

text \<open>
  Claim C2. The closing message has three tiers with its own threshold 70, which is no
  boundary of a grade: from 90 the harder-sentence message, from 70 and below 90 the
  message that points to the starred words, below 70 the message to listen to the
  reference again and speak more slowly. For every score from 70 and below 75 the grade
  is Fair while the message is the one about the starred words.
\<close>

theorem closing_tiers:
  assumes "a_overallScore a = Some s"
  shows "(90 \<le> s \<longrightarrow> rep_closing (print_feedback a t r) =
            CHR 0x0A # ''  Great job! Try a harder sentence.'')
       \<and> (70 \<le> s \<and> s < 90 \<longrightarrow> rep_closing (print_feedback a t r) =
            CHR 0x0A # ''  Good progress! Focus on the starred (*) words above.'')
       \<and> (s < 70 \<longrightarrow> rep_closing (print_feedback a t r) =
            CHR 0x0A #
              ''  Tip: Listen to the reference audio again, then try speaking more slowly.'')
       \<and> (70 \<le> s \<and> s < 75 \<longrightarrow> rep_grade (print_feedback a t r) = ''Fair'' \<and>
            rep_closing (print_feedback a t r) =
              CHR 0x0A # ''  Good progress! Focus on the starred (*) words above.'')"
  using assms by (simp add: print_feedback_eq grade_of_def closing_of_def dict_get_def)

text \<open>At 92, 72 and 50: one score of each tier, 72 being graded Fair.\<close>

theorem closing_tiers_witness:
  "rep_closing (print_feedback \<lparr>a_overallScore = Some 92, a_words = None\<rparr>
                  \<lparr>t_text = None, t_language = None\<rparr> '''')
     = CHR 0x0A # ''  Great job! Try a harder sentence.''
 \<and> rep_grade (print_feedback \<lparr>a_overallScore = Some 72, a_words = None\<rparr>
                  \<lparr>t_text = None, t_language = None\<rparr> '''') = ''Fair''
 \<and> rep_closing (print_feedback \<lparr>a_overallScore = Some 72, a_words = None\<rparr>
                  \<lparr>t_text = None, t_language = None\<rparr> '''')
     = CHR 0x0A # ''  Good progress! Focus on the starred (*) words above.''
 \<and> rep_closing (print_feedback \<lparr>a_overallScore = Some 50, a_words = None\<rparr>
                  \<lparr>t_text = None, t_language = None\<rparr> '''')
     = CHR 0x0A #
         ''  Tip: Listen to the reference audio again, then try speaking more slowly.''"
  using closing_tiers [of "\<lparr>a_overallScore = Some 92, a_words = None\<rparr>" 92]
        closing_tiers [of "\<lparr>a_overallScore = Some 72, a_words = None\<rparr>" 72]
        closing_tiers [of "\<lparr>a_overallScore = Some 50, a_words = None\<rparr>" 50]
  by simp

subsection \<open>Weak phonemes\<close>

text \<open>
  Claim C3. The list \<^verbatim>\<open>weak_phonemes\<close> is the list of all (word, phoneme, score) triples of
  the input, in word-major and phoneme-minor order, restricted to the triples whose
  score is strictly below 60: a triple is in it exactly when it is a triple of the
  input with a score below 60, and the order is the input order.
\<close>

theorem weak_phonemes_filter:
  "rep_weak_phonemes (print_feedback a t r) =
     filter (\<lambda>(word, ph, ps). ps < 60) (all_triples (dict_get (a_words a) []))
   \<and> (\<forall>word ph ps. (word, ph, ps) \<in> set (rep_weak_phonemes (print_feedback a t r)) \<longleftrightarrow>
         (word, ph, ps) \<in> set (all_triples (dict_get (a_words a) [])) \<and> ps < 60)"
  by (simp add: print_feedback_eq case_prod_unfold)

text \<open>
  On two words: 55 and 59.99 are kept, in input order; 98 and the boundary 60 are not.
\<close>

theorem weak_phonemes_filter_witness:
  "rep_weak_phonemes
     (print_feedback
        \<lparr>a_overallScore = Some 92,
         a_words = Some
           [\<lparr>w_word = Some ''fox'', w_score = Some 95,
             w_phonemes = Some [\<lparr>p_phoneme = Some ''f'', p_score = Some 98\<rparr>,
                                \<lparr>p_phoneme = Some ''ks'', p_score = Some 55\<rparr>]\<rparr>,
            \<lparr>w_word = Some ''dog'', w_score = Some 80,
             w_phonemes = Some [\<lparr>p_phoneme = Some ''d'', p_score = Some 60\<rparr>,
                                \<lparr>p_phoneme = Some ''o'', p_score = Some 59.99\<rparr>]\<rparr>]\<rparr>
        \<lparr>t_text = Some ''fox dog'', t_language = None\<rparr> ''fox dog'')
   = [(''fox'', ''ks'', 55), (''dog'', ''o'', 59.99)]"
  using weak_phonemes_filter
     [of "\<lparr>a_overallScore = Some 92,
         a_words = Some
           [\<lparr>w_word = Some ''fox'', w_score = Some 95,
             w_phonemes = Some [\<lparr>p_phoneme = Some ''f'', p_score = Some 98\<rparr>,
                                \<lparr>p_phoneme = Some ''ks'', p_score = Some 55\<rparr>]\<rparr>,
            \<lparr>w_word = Some ''dog'', w_score = Some 80,
             w_phonemes = Some [\<lparr>p_phoneme = Some ''d'', p_score = Some 60\<rparr>,
                                \<lparr>p_phoneme = Some ''o'', p_score = Some 59.99\<rparr>]\<rparr>]\<rparr>"
         "\<lparr>t_text = Some ''fox dog'', t_language = None\<rparr>" "''fox dog''"]
  by (simp add: all_triples_def dict_get_def)

subsection \<open>Flagged words\<close>

text \<open>
  Claim C4. The table has one line for each word, in input order, and the line of a
  word is flagged exactly when the word's score is strictly below 70.
\<close>

theorem word_rows_flagged:
  "map (\<lambda>row. (row_word row, row_score row, flagged row)) (rep_rows (print_feedback a t r)) =
     map (\<lambda>w. (dict_get (w_word w) '''', dict_get (w_score w) 0, dict_get (w_score w) 0 < 70))
         (dict_get (a_words a) [])"
  by (simp add: print_feedback_eq row_of_def flagged_def marker_of_def comp_def)

text \<open>At the boundary: 70 is not flagged, 69.99 is.\<close>

theorem word_rows_flagged_witness:
  "map (\<lambda>row. (row_word row, row_score row, flagged row))
     (rep_rows (print_feedback
        \<lparr>a_overallScore = Some 80,
         a_words = Some
           [\<lparr>w_word = Some ''quick'', w_score = Some 70, w_phonemes = None\<rparr>,
            \<lparr>w_word = Some ''brown'', w_score = Some 69.99, w_phonemes = None\<rparr>,
            \<lparr>w_word = Some ''fox'', w_score = Some 95, w_phonemes = None\<rparr>]\<rparr>
        \<lparr>t_text = None, t_language = None\<rparr> ''quick brown fox''))
   = [(''quick'', 70, False), (''brown'', 69.99, True), (''fox'', 95, False)]"
  using word_rows_flagged
     [of "\<lparr>a_overallScore = Some 80,
         a_words = Some
           [\<lparr>w_word = Some ''quick'', w_score = Some 70, w_phonemes = None\<rparr>,
            \<lparr>w_word = Some ''brown'', w_score = Some 69.99, w_phonemes = None\<rparr>,
            \<lparr>w_word = Some ''fox'', w_score = Some 95, w_phonemes = None\<rparr>]\<rparr>"
         "\<lparr>t_text = None, t_language = None\<rparr>" "''quick brown fox''"]
  by (simp add: dict_get_def)

subsection \<open>Absent keys\<close>

text \<open>
  Claim C10. The report of an assessment is the report of the assessment with every
  absent key bound to its default; \<^const>\<open>print_feedback\<close> is a total function of the
  dictionaries, so no absent key makes it fail. An absent overall score counts as 0:
  the grade is Keep Practicing and the closing message is the one to slow down. Absent
  words count as the empty list: no table line and no weak phoneme. A word without a
  score has score 0 and is flagged; a phoneme without a score has score 0 and is weak.
\<close>

theorem missing_fields_defaults:
  "print_feedback a t r = print_feedback (fill_assessment a) t r
   \<and> (a_overallScore a = None \<longrightarrow>
        rep_overall (print_feedback a t r) = 0 \<and>
        rep_grade (print_feedback a t r) = ''Keep Practicing'' \<and>
        rep_closing (print_feedback a t r) =
          CHR 0x0A #
            ''  Tip: Listen to the reference audio again, then try speaking more slowly.'')
   \<and> (a_words a = None \<longrightarrow>
        rep_rows (print_feedback a t r) = [] \<and> rep_weak_phonemes (print_feedback a t r) = [])
   \<and> (\<forall>i < length (dict_get (a_words a) []).
        w_score (dict_get (a_words a) [] ! i) = None \<longrightarrow>
          row_score (rep_rows (print_feedback a t r) ! i) = 0 \<and>
          flagged (rep_rows (print_feedback a t r) ! i))
   \<and> (\<forall>w \<in> set (dict_get (a_words a) []). \<forall>p \<in> set (dict_get (w_phonemes w) []).
        p_score p = None \<longrightarrow>
          (dict_get (w_word w) '''', dict_get (p_phoneme p) '''', 0)
            \<in> set (rep_weak_phonemes (print_feedback a t r)))"
proof -
  have fill: "print_feedback a t r = print_feedback (fill_assessment a) t r"
    by (simp add: print_feedback_eq fill_assessment_def row_of_fill_word all_triples_fill
        dict_get_def [of "Some x" for x])
  have overall: "a_overallScore a = None \<longrightarrow>
        rep_overall (print_feedback a t r) = 0 \<and>
        rep_grade (print_feedback a t r) = ''Keep Practicing'' \<and>
        rep_closing (print_feedback a t r) =
          CHR 0x0A #
            ''  Tip: Listen to the reference audio again, then try speaking more slowly.''"
    by (simp add: print_feedback_eq dict_get_def grade_of_def closing_of_def)
  have words: "a_words a = None \<longrightarrow>
        rep_rows (print_feedback a t r) = [] \<and> rep_weak_phonemes (print_feedback a t r) = []"
    by (simp add: print_feedback_eq dict_get_def all_triples_def)
  have wscore: "\<forall>i < length (dict_get (a_words a) []).
        w_score (dict_get (a_words a) [] ! i) = None \<longrightarrow>
          row_score (rep_rows (print_feedback a t r) ! i) = 0 \<and>
          flagged (rep_rows (print_feedback a t r) ! i)"
    by (simp add: print_feedback_eq row_of_def flagged_def marker_of_def
        dict_get_def [of None])
  have pscore: "\<forall>w \<in> set (dict_get (a_words a) []). \<forall>p \<in> set (dict_get (w_phonemes w) []).
        p_score p = None \<longrightarrow>
          (dict_get (w_word w) '''', dict_get (p_phoneme p) '''', 0)
            \<in> set (rep_weak_phonemes (print_feedback a t r))"
  proof (intro ballI impI)
    fix w p
    assume w: "w \<in> set (dict_get (a_words a) [])"
      and p: "p \<in> set (dict_get (w_phonemes w) [])"
      and none: "p_score p = None"
    have "(dict_get (w_word w) '''', dict_get (p_phoneme p) '''', dict_get (p_score p) 0)
            \<in> set (all_triples (dict_get (a_words a) []))"
      using w p unfolding all_triples_def by auto
    then show "(dict_get (w_word w) '''', dict_get (p_phoneme p) '''', 0)
            \<in> set (rep_weak_phonemes (print_feedback a t r))"
      using none by (simp add: print_feedback_eq dict_get_def [of None])
  qed
  from fill overall words wscore pscore show ?thesis by blast
qed

text \<open>On an assessment with no overall score, a word and a phoneme without a score,
  and on an assessment without words.\<close>

theorem missing_fields_defaults_witness:
  "rep_overall (print_feedback
      \<lparr>a_overallScore = None,
       a_words = Some [\<lparr>w_word = Some ''fox'', w_score = None,
                        w_phonemes = Some [\<lparr>p_phoneme = Some ''f'', p_score = None\<rparr>]\<rparr>]\<rparr>
      \<lparr>t_text = None, t_language = None\<rparr> ''fox'') = 0
   \<and> rep_grade (print_feedback
      \<lparr>a_overallScore = None,
       a_words = Some [\<lparr>w_word = Some ''fox'', w_score = None,
                        w_phonemes = Some [\<lparr>p_phoneme = Some ''f'', p_score = None\<rparr>]\<rparr>]\<rparr>
      \<lparr>t_text = None, t_language = None\<rparr> ''fox'') = ''Keep Practicing''
   \<and> flagged (rep_rows (print_feedback
      \<lparr>a_overallScore = None,
       a_words = Some [\<lparr>w_word = Some ''fox'', w_score = None,
                        w_phonemes = Some [\<lparr>p_phoneme = Some ''f'', p_score = None\<rparr>]\<rparr>]\<rparr>
      \<lparr>t_text = None, t_language = None\<rparr> ''fox'') ! 0)
   \<and> (''fox'', ''f'', 0) \<in> set (rep_weak_phonemes (print_feedback
      \<lparr>a_overallScore = None,
       a_words = Some [\<lparr>w_word = Some ''fox'', w_score = None,
                        w_phonemes = Some [\<lparr>p_phoneme = Some ''f'', p_score = None\<rparr>]\<rparr>]\<rparr>
      \<lparr>t_text = None, t_language = None\<rparr> ''fox''))
   \<and> rep_rows (print_feedback \<lparr>a_overallScore = Some 50, a_words = None\<rparr>
        \<lparr>t_text = None, t_language = None\<rparr> ''fox'') = []
   \<and> rep_weak_phonemes (print_feedback \<lparr>a_overallScore = Some 50, a_words = None\<rparr>
        \<lparr>t_text = None, t_language = None\<rparr> ''fox'') = []"
  using missing_fields_defaults
     [of "\<lparr>a_overallScore = None,
       a_words = Some [\<lparr>w_word = Some ''fox'', w_score = None,
                        w_phonemes = Some [\<lparr>p_phoneme = Some ''f'', p_score = None\<rparr>]\<rparr>]\<rparr>"
         "\<lparr>t_text = None, t_language = None\<rparr>" "''fox''", THEN conjunct2]
    missing_fields_defaults
     [of "\<lparr>a_overallScore = Some 50, a_words = None\<rparr>"
         "\<lparr>t_text = None, t_language = None\<rparr>" "''fox''", THEN conjunct2]
  by (simp add: dict_get_def)

section \<open>Properties of the string operations\<close>

subsection \<open>Stripping\<close>






subsection \<open>Decimal numerals are read back\<close>














subsection \<open>A text with a character that is no digit is no number\<close>




subsection \<open>Case variants of the quit tokens\<close>



section \<open>Properties of the practice loop\<close>

text \<open>
  Reading the loop as the state machine of the specification: a pass through
  \<^const>\<open>loop_body\<close> starts in SelectingSentence, at the prompt; the result
  \<open>Inr Continue\<close> is the return to SelectingSentence, where \<^const>\<open>main_loop\<close> runs the
  next pass; \<open>Inr Break\<close> is Terminated. The calls of the services and of the feedback
  engine are the events of the trace, so a step that is skipped is a call that is not
  in the trace.
\<close>

subsection \<open>The steps, case by case\<close>

lemma from_step3_http:
  "stt_request w u = Inl (HTTPError e) \<Longrightarrow>
     from_step3 w s u = ([Print Step3_transcribing, Stt_transcribe u, Print (STT_error e)], Inr Continue)"
  by (simp add: from_step3_def stt_transcribe_def after_def)

lemma from_step3_ok:
  "stt_request w u = Inr t \<Longrightarrow>
     from_step3 w s u = after [Print Step3_transcribing, Stt_transcribe u] (from_step4 w s u t)"
  by (simp add: from_step3_def stt_transcribe_def after_def)

lemma from_step4_http:
  "assess_request w u s = Inl (HTTPError e) \<Longrightarrow>
     from_step4 w s u t =
       ([Print Step4_scoring, Pronunciation_assess u s, Print (Assessment_error e)], Inr Continue)"
  by (simp add: from_step4_def pronunciation_assess_def after_def)

lemma from_step4_ok:
  "assess_request w u s = Inr a \<Longrightarrow>
     from_step4 w s u t =
       ([Print Step4_scoring, Pronunciation_assess u s, Print_feedback (print_feedback a t s)],
        Inr Continue)"
  by (simp add: from_step4_def from_step5_def pronunciation_assess_def after_def)

lemma transcribe_in_step4: "Stt_transcribe p \<notin> set (fst (from_step4 w s u t))"
  by (auto simp: from_step4_def from_step5_def pronunciation_assess_def after_def
      split: sum.splits exn.splits)

lemma transcribe_in_step3: "Stt_transcribe p \<in> set (fst (from_step3 w s u)) \<longleftrightarrow> p = u"
  by (auto simp: from_step3_def stt_transcribe_def after_def transcribe_in_step4
      split: sum.splits exn.splits)

lemma assess_in_step4:
  "Pronunciation_assess p r \<in> set (fst (from_step4 w s u t)) \<longleftrightarrow> p = u \<and> r = s"
  by (auto simp: from_step4_def from_step5_def pronunciation_assess_def after_def
      split: sum.splits exn.splits)

lemma assess_in_step3:
  "Pronunciation_assess p r \<in> set (fst (from_step3 w s u)) \<longleftrightarrow>
     p = u \<and> r = s \<and> (\<exists>t. stt_request w u = Inr t)"
  by (auto simp: from_step3_def stt_transcribe_def after_def assess_in_step4
      split: sum.splits exn.splits)

lemma step4_no_break: "snd (from_step4 w s u t) \<noteq> Inr Break"
  by (auto simp: from_step4_def from_step5_def pronunciation_assess_def after_def
      split: sum.splits exn.splits)

lemma step3_no_break: "snd (from_step3 w s u) \<noteq> Inr Break"
  by (auto simp: from_step3_def stt_transcribe_def after_def step4_no_break
      split: sum.splits exn.splits)

lemma step2_no_break: "snd (from_step2 w s) \<noteq> Inr Break"
  by (auto simp: from_step2_def record_audio_def after_def Let_def step3_no_break
      split: option.splits)

lemma step2_records: "list_ex is_record (fst (from_step2 w s))"
  by (simp add: from_step2_def after_def Let_def)

lemma step4_ignores_tts: "from_step4 (w\<lparr>tts_request := f\<rparr>) s u t = from_step4 w s u t"
  by (simp add: from_step4_def pronunciation_assess_def)

lemma step3_ignores_tts: "from_step3 (w\<lparr>tts_request := f\<rparr>) s u = from_step3 w s u"
  by (auto simp: from_step3_def stt_transcribe_def step4_ignores_tts split: sum.splits exn.splits)

lemma step2_ignores_tts: "from_step2 (w\<lparr>tts_request := f\<rparr>) s = from_step2 w s"
  by (auto simp: from_step2_def record_audio_def after_def Let_def step3_ignores_tts
      split: option.splits)

lemma main_loop_continue:
  "snd (loop_body w) = Inr Continue \<Longrightarrow>
     main_loop (w # ws) = after (fst (loop_body w)) (main_loop ws)"
  by (cases "loop_body w") simp

lemma main_loop_break:
  "snd (loop_body w) = Inr Break \<Longrightarrow> main_loop (w # ws) = (fst (loop_body w), Inr ())"
  by (cases "loop_body w") simp


lemmas outer_defs = loop_body_def from_step1_def from_step2_def tts_synthesize_def
  record_audio_def after_def Let_def

lemmas eval_defs = sample_world_def loop_body_def str_of_def strip_def strip_by_def
  isspace_def int_space_def lower_def lower_cp_def quit_tokens_def select_index_def
  py_int_def py_unsigned_def digit_val_def decimal_zeros_def SENTENCES_def
  after_def from_step1_def from_step2_def from_step3_def from_step4_def from_step5_def
  tts_synthesize_def record_audio_def stt_transcribe_def pronunciation_assess_def
  countdown_def Let_def

subsection \<open>Service errors in transcription and assessment\<close>

text \<open>
  Claim C5. When the transcription call of a pass fails with the HTTP error, the pass
  ends back at the prompt (the loop goes on with the next pass) and its trace has no
  assessment call and no feedback. When the assessment call of a pass fails with the
  HTTP error, the pass ends back at the prompt and its trace has no feedback.
\<close>

theorem service_error_aborts_iteration:
  "(Stt_transcribe p \<in> set (fst (loop_body w)) \<and> stt_request w p = Inl (HTTPError e) \<longrightarrow>
       snd (loop_body w) = Inr Continue
       \<and> \<not> list_ex is_assess (fst (loop_body w))
       \<and> \<not> list_ex is_feedback (fst (loop_body w))
       \<and> main_loop (w # ws) = after (fst (loop_body w)) (main_loop ws))
   \<and> (Pronunciation_assess p s \<in> set (fst (loop_body w))
        \<and> assess_request w p s = Inl (HTTPError e) \<longrightarrow>
       snd (loop_body w) = Inr Continue
       \<and> \<not> list_ex is_feedback (fst (loop_body w))
       \<and> main_loop (w # ws) = after (fst (loop_body w)) (main_loop ws))"
proof -
  have stt: "snd (loop_body w) = Inr Continue \<and> \<not> list_ex is_assess (fst (loop_body w))
       \<and> \<not> list_ex is_feedback (fst (loop_body w))"
    if "Stt_transcribe p \<in> set (fst (loop_body w))" "stt_request w p = Inl (HTTPError e)"
    using that
    by (auto simp: outer_defs transcribe_in_step3 from_step3_http list_ex_iff
        split: sum.splits exn.splits option.splits if_splits)
  have assess: "snd (loop_body w) = Inr Continue \<and> \<not> list_ex is_feedback (fst (loop_body w))"
    if "Pronunciation_assess p s \<in> set (fst (loop_body w))"
       "assess_request w p s = Inl (HTTPError e)"
    using that
    by (auto simp: outer_defs assess_in_step3 from_step3_ok from_step4_http list_ex_iff
        split: sum.splits exn.splits option.splits if_splits)
  show ?thesis
    using stt assess main_loop_continue [of w ws] by blast
qed

text \<open>A valid selection, with the transcription failing, and with the assessment failing.\<close>

theorem service_error_aborts_iteration_witness:
  "snd (loop_body ((sample_world ''5'')\<lparr>stt_request := \<lambda>audio_path. Inl (HTTPError ''503'')\<rparr>))
     = Inr Continue
   \<and> \<not> list_ex is_assess
         (fst (loop_body ((sample_world ''5'')\<lparr>stt_request := \<lambda>audio_path. Inl (HTTPError ''503'')\<rparr>)))
   \<and> \<not> list_ex is_feedback
         (fst (loop_body ((sample_world ''5'')\<lparr>stt_request := \<lambda>audio_path. Inl (HTTPError ''503'')\<rparr>)))
   \<and> snd (loop_body ((sample_world ''5'')
         \<lparr>assess_request := \<lambda>audio_path reference_text. Inl (HTTPError ''503'')\<rparr>))
     = Inr Continue
   \<and> \<not> list_ex is_feedback
         (fst (loop_body ((sample_world ''5'')
            \<lparr>assess_request := \<lambda>audio_path reference_text. Inl (HTTPError ''503'')\<rparr>)))"
proof -
  let ?w1 = "(sample_world ''5'')\<lparr>stt_request := \<lambda>audio_path. Inl (HTTPError ''503'')\<rparr>"
  let ?w2 = "(sample_world ''5'')
      \<lparr>assess_request := \<lambda>audio_path reference_text. Inl (HTTPError ''503'')\<rparr>"
  have called1: "Stt_transcribe ''user_recording.wav'' \<in> set (fst (loop_body ?w1))"
    by (simp add: eval_defs)
  have fails1: "stt_request ?w1 ''user_recording.wav'' = Inl (HTTPError ''503'')"
    by simp
  have called2: "Pronunciation_assess ''user_recording.wav''
        ''The quick brown fox jumps over the lazy dog.'' \<in> set (fst (loop_body ?w2))"
    by (simp add: eval_defs)
  have fails2: "assess_request ?w2 ''user_recording.wav''
        ''The quick brown fox jumps over the lazy dog.'' = Inl (HTTPError ''503'')"
    by simp
  show ?thesis
    using service_error_aborts_iteration
        [where w = ?w1 and p = "''user_recording.wav''" and e = "''503''" and ws = "[]"]
      service_error_aborts_iteration
        [where w = ?w2 and p = "''user_recording.wav''" and e = "''503''" and ws = "[]"
           and s = "''The quick brown fox jumps over the lazy dog.''"]
      called1 fails1 called2 fails2
    by blast
qed

subsection \<open>No recording\<close>

text \<open>
  Claim C8. \<^verbatim>\<open>record_audio\<close> reports no clip when, after Enter is pressed, nothing exists
  at the expected path. When the recording step of a pass reports no clip, the pass
  ends back at the prompt with the skipping message as its last line, and its trace
  has no transcription call, no assessment call and no feedback.
\<close>

theorem no_recording_aborts_iteration:
  "(enter_line w = Some l \<and> \<not> path_exists w p \<longrightarrow> snd (record_audio w p d) = Inr False)
   \<and> (list_ex is_record (fst (loop_body w))
        \<and> snd (record_audio w ''user_recording.wav'' 5) = Inr False \<longrightarrow>
       snd (loop_body w) = Inr Continue
       \<and> \<not> list_ex is_transcribe (fst (loop_body w))
       \<and> \<not> list_ex is_assess (fst (loop_body w))
       \<and> \<not> list_ex is_feedback (fst (loop_body w))
       \<and> last (fst (loop_body w)) = Print Skipping_no_recording
       \<and> main_loop (w # ws) = after (fst (loop_body w)) (main_loop ws))"
proof -
  have rec: "enter_line w = Some l \<and> \<not> path_exists w p \<longrightarrow>
      snd (record_audio w p d) = Inr False"
    by (simp add: record_audio_def after_def)
  have body: "snd (loop_body w) = Inr Continue
       \<and> \<not> list_ex is_transcribe (fst (loop_body w))
       \<and> \<not> list_ex is_assess (fst (loop_body w))
       \<and> \<not> list_ex is_feedback (fst (loop_body w))
       \<and> last (fst (loop_body w)) = Print Skipping_no_recording"
    if "list_ex is_record (fst (loop_body w))"
       "snd (record_audio w ''user_recording.wav'' 5) = Inr False"
    using that
    by (auto simp: outer_defs list_ex_iff
        split: sum.splits exn.splits option.splits if_splits)
  show ?thesis
    using rec body main_loop_continue [of w ws] by blast
qed

text \<open>A valid selection, Enter pressed, and no file at the recording path.\<close>

theorem no_recording_aborts_iteration_witness:
  "snd (loop_body ((sample_world ''2'')\<lparr>path_exists := \<lambda>path. False\<rparr>)) = Inr Continue
   \<and> \<not> list_ex is_transcribe (fst (loop_body ((sample_world ''2'')\<lparr>path_exists := \<lambda>path. False\<rparr>)))
   \<and> \<not> list_ex is_assess (fst (loop_body ((sample_world ''2'')\<lparr>path_exists := \<lambda>path. False\<rparr>)))
   \<and> \<not> list_ex is_feedback (fst (loop_body ((sample_world ''2'')\<lparr>path_exists := \<lambda>path. False\<rparr>)))"
proof -
  let ?w = "(sample_world ''2'')\<lparr>path_exists := \<lambda>path. False\<rparr>"
  have enter: "enter_line ?w = Some []"
    by (simp add: sample_world_def)
  have absent: "\<not> path_exists ?w ''user_recording.wav''"
    by simp
  have reached: "list_ex is_record (fst (loop_body ?w))"
    by (simp add: eval_defs)
  show ?thesis
    using no_recording_aborts_iteration
        [where w = ?w and l = "[]" and p = "''user_recording.wav''" and d = 5 and ws = "[]"]
      enter absent reached
    by blast
qed

subsection \<open>Selecting a sentence\<close>

lemma loop_body_selected:
  assumes "lower (strip (choice_line w)) \<notin> set quit_tokens"
      and "select_index (strip (choice_line w)) = Some idx"
  shows "loop_body w =
     after [Print Blank, Input_choice, Print (Target (SENTENCES ! nat idx))]
       (from_step1 w (SENTENCES ! nat idx))"
  using assms by (simp add: loop_body_def after_def Let_def)

lemmas string_defs = str_of_def strip_def strip_by_def isspace_def int_space_def lower_def
  lower_cp_def py_int_def py_unsigned_def digit_val_def decimal_zeros_def quit_tokens_def
  select_index_def



text \<open>
  \<^verbatim>\<open>int\<close> on texts that show its grammar: white space around the literal but not the
  separators 28 to 31, one sign, single underscores between digits, leading zeros, and
  digits of any script.
\<close>

lemma py_int_examples:
  "py_int [0x20, 0x35, 0xA0] = Some 5"
  "py_int [0x1C, 0x35] = None"
  "py_int (str_of ''+3'') = Some 3"
  "py_int (str_of ''-3'') = Some (- 3)"
  "py_int (str_of ''--3'') = None"
  "py_int (str_of ''+ 3'') = None"
  "py_int (str_of ''+'') = None"
  "py_int [] = None"
  "py_int (str_of ''007'') = Some 7"
  "py_int (str_of ''1_0'') = Some 10"
  "py_int (str_of ''1__0'') = None"
  "py_int (str_of ''_1'') = None"
  "py_int (str_of ''1_'') = None"
  "py_int (str_of ''5 5'') = None"
  "py_int [0x663, 0xFF14] = Some 34"
  by (simp_all add: string_defs)

subsection \<open>A service error in synthesis\<close>

text \<open>
  Claim C7. When the synthesis request of a pass fails with the HTTP error, the pass
  prints the error and the continuing-anyway line and goes on with step 2: its trace is
  that of the pass in which synthesis succeeds, but for the two lines after the call.
  The recording is asked for, the pass never breaks out of the loop, and when the
  recording and the two services succeed the pass transcribes, assesses, prints the
  feedback and returns to the prompt.
\<close>

theorem synthesis_failure_not_fatal:
  assumes "lower (strip (choice_line w)) \<notin> set quit_tokens"
      and "select_index (strip (choice_line w)) = Some idx"
      and "tts_request w (SENTENCES ! nat idx) ''af_heart'' (9 / 10) ''reference_audio.wav''
             = Some (HTTPError e)"
  shows "loop_body w =
           after [Print Blank, Input_choice, Print (Target (SENTENCES ! nat idx)),
                  Print Step1_generating,
                  Tts_synthesize (SENTENCES ! nat idx) ''reference_audio.wav'',
                  Print (TTS_error e), Print Could_not_generate_continuing]
             (from_step2 w (SENTENCES ! nat idx))
       \<and> loop_body (w\<lparr>tts_request := \<lambda>text voice speed output_path. None\<rparr>) =
           after [Print Blank, Input_choice, Print (Target (SENTENCES ! nat idx)),
                  Print Step1_generating,
                  Tts_synthesize (SENTENCES ! nat idx) ''reference_audio.wav'',
                  Print (Reference_saved ''reference_audio.wav''), Print Play_this_file]
             (from_step2 w (SENTENCES ! nat idx))
       \<and> list_ex is_record (fst (loop_body w))
       \<and> snd (loop_body w) \<noteq> Inr Break
       \<and> (enter_line w \<noteq> None \<and> path_exists w ''user_recording.wav''
            \<and> stt_request w ''user_recording.wav'' = Inr t
            \<and> assess_request w ''user_recording.wav'' (SENTENCES ! nat idx) = Inr a \<longrightarrow>
           snd (loop_body w) = Inr Continue
           \<and> Stt_transcribe ''user_recording.wav'' \<in> set (fst (loop_body w))
           \<and> Pronunciation_assess ''user_recording.wav'' (SENTENCES ! nat idx)
                \<in> set (fst (loop_body w))
           \<and> last (fst (loop_body w)) =
                Print_feedback (print_feedback a t (SENTENCES ! nat idx))
           \<and> main_loop (w # ws) = after (fst (loop_body w)) (main_loop ws))"
proof -
  let ?s = "SENTENCES ! nat idx"
  have step1: "from_step1 w ?s =
      after [Print Step1_generating, Tts_synthesize ?s ''reference_audio.wav'',
             Print (TTS_error e), Print Could_not_generate_continuing]
        (from_step2 w ?s)"
    using assms(3) by (simp add: from_step1_def tts_synthesize_def after_def Let_def)
  have failing: "loop_body w =
      after [Print Blank, Input_choice, Print (Target ?s), Print Step1_generating,
             Tts_synthesize ?s ''reference_audio.wav'',
             Print (TTS_error e), Print Could_not_generate_continuing]
        (from_step2 w ?s)"
    using loop_body_selected [OF assms(1,2)] step1 by (simp add: after_def)
  have step1': "from_step1 (w\<lparr>tts_request := \<lambda>text voice speed output_path. None\<rparr>) ?s =
      after [Print Step1_generating, Tts_synthesize ?s ''reference_audio.wav'',
             Print (Reference_saved ''reference_audio.wav''), Print Play_this_file]
        (from_step2 w ?s)"
    by (simp add: from_step1_def tts_synthesize_def after_def Let_def step2_ignores_tts)
  have succeeding: "loop_body (w\<lparr>tts_request := \<lambda>text voice speed output_path. None\<rparr>) =
      after [Print Blank, Input_choice, Print (Target ?s), Print Step1_generating,
             Tts_synthesize ?s ''reference_audio.wav'',
             Print (Reference_saved ''reference_audio.wav''), Print Play_this_file]
        (from_step2 w ?s)"
    using loop_body_selected [of "w\<lparr>tts_request := \<lambda>text voice speed output_path. None\<rparr>" idx]
      assms(1,2) step1'
    by (simp add: after_def)
  have records: "list_ex is_record (fst (loop_body w))"
    using step2_records [of w ?s] by (simp add: failing after_def)
  have no_break: "snd (loop_body w) \<noteq> Inr Break"
    using step2_no_break [of w ?s] by (simp add: failing after_def)
  have rest: "snd (loop_body w) = Inr Continue
           \<and> Stt_transcribe ''user_recording.wav'' \<in> set (fst (loop_body w))
           \<and> Pronunciation_assess ''user_recording.wav'' ?s \<in> set (fst (loop_body w))
           \<and> last (fst (loop_body w)) = Print_feedback (print_feedback a t ?s)"
    if "enter_line w \<noteq> None" "path_exists w ''user_recording.wav''"
       "stt_request w ''user_recording.wav'' = Inr t"
       "assess_request w ''user_recording.wav'' ?s = Inr a"
    using that
    by (auto simp: failing from_step2_def record_audio_def after_def Let_def
        from_step3_ok from_step4_ok)
  show ?thesis
    using failing succeeding records no_break rest main_loop_continue [of w ws] by blast
qed

text \<open>The fifth sentence, a synthesis that fails with status 503, and everything else succeeding.\<close>

theorem synthesis_failure_not_fatal_witness:
  "snd (loop_body ((sample_world ''5'')
          \<lparr>tts_request := \<lambda>text voice speed output_path. Some (HTTPError ''503'')\<rparr>))
     = Inr Continue
   \<and> list_ex is_record (fst (loop_body ((sample_world ''5'')
          \<lparr>tts_request := \<lambda>text voice speed output_path. Some (HTTPError ''503'')\<rparr>)))
   \<and> Stt_transcribe ''user_recording.wav'' \<in> set (fst (loop_body ((sample_world ''5'')
          \<lparr>tts_request := \<lambda>text voice speed output_path. Some (HTTPError ''503'')\<rparr>)))
   \<and> Pronunciation_assess ''user_recording.wav''
        ''The quick brown fox jumps over the lazy dog.''
        \<in> set (fst (loop_body ((sample_world ''5'')
          \<lparr>tts_request := \<lambda>text voice speed output_path. Some (HTTPError ''503'')\<rparr>)))
   \<and> last (fst (loop_body ((sample_world ''5'')
          \<lparr>tts_request := \<lambda>text voice speed output_path. Some (HTTPError ''503'')\<rparr>)))
     = Print_feedback (print_feedback sample_assessment sample_transcription
         ''The quick brown fox jumps over the lazy dog.'')"
proof -
  let ?w = "(sample_world ''5'')
      \<lparr>tts_request := \<lambda>text voice speed output_path. Some (HTTPError ''503'')\<rparr>"
  have fifth: "SENTENCES ! nat 4 = ''The quick brown fox jumps over the lazy dog.''"
    by (simp add: SENTENCES_def)
  have no_quit: "lower (strip (choice_line ?w)) \<notin> set quit_tokens"
    by (simp add: sample_world_def string_defs)
  have selected: "select_index (strip (choice_line ?w)) = Some 4"
    by (simp add: sample_world_def string_defs SENTENCES_def)
  have fails: "tts_request ?w (SENTENCES ! nat 4) ''af_heart'' (9 / 10) ''reference_audio.wav''
      = Some (HTTPError ''503'')"
    by simp
  have later: "enter_line ?w \<noteq> None" "path_exists ?w ''user_recording.wav''"
    "stt_request ?w ''user_recording.wav'' = Inr sample_transcription"
    "assess_request ?w ''user_recording.wav'' (SENTENCES ! nat 4) = Inr sample_assessment"
    by (simp_all add: sample_world_def)
  show ?thesis
    using synthesis_failure_not_fatal
        [OF no_quit selected fails, where t = sample_transcription and a = sample_assessment,
          unfolded fifth]
      later [unfolded fifth]
    by blast
qed

subsection \<open>Where the report of a pass comes from\<close>

text \<open>
  A report in the trace of a pass is \<^const>\<open>print_feedback\<close> of what the two services
  returned in that pass and of the sentence selected.
\<close>

lemma feedback_in_step4:
  "Print_feedback rep \<in> set (fst (from_step4 w s u t)) \<longleftrightarrow>
     (\<exists>a. assess_request w u s = Inr a \<and> rep = print_feedback a t s)"
  by (auto simp: from_step4_def from_step5_def pronunciation_assess_def after_def
      split: sum.splits exn.splits)

lemma feedback_in_step3:
  "Print_feedback rep \<in> set (fst (from_step3 w s u)) \<longleftrightarrow>
     (\<exists>t a. stt_request w u = Inr t \<and> assess_request w u s = Inr a
        \<and> rep = print_feedback a t s)"
  by (auto simp: from_step3_def stt_transcribe_def after_def feedback_in_step4
      split: sum.splits exn.splits)

lemma feedback_of_pass:
  assumes "Print_feedback rep \<in> set (fst (loop_body w))"
  shows "\<exists>idx t a. select_index (strip (choice_line w)) = Some idx
       \<and> stt_request w ''user_recording.wav'' = Inr t
       \<and> assess_request w ''user_recording.wav'' (SENTENCES ! nat idx) = Inr a
       \<and> rep = print_feedback a t (SENTENCES ! nat idx)"
  using assms
  by (auto simp: outer_defs feedback_in_step3
      split: sum.splits exn.splits option.splits if_splits)

subsection \<open>The end-to-end scenario of the specification\<close>

lemma end_to_end_scenario:
  "rep_grade (print_feedback sample_assessment sample_transcription ''fox'') = ''Excellent''"
  "map flagged (rep_rows (print_feedback sample_assessment sample_transcription ''fox''))
     = [False]"
  "rep_weak_phonemes (print_feedback sample_assessment sample_transcription ''fox'')
     = [(''fox'', ''ks'', 55)]"
  "rep_closing (print_feedback sample_assessment sample_transcription ''fox'')
     = CHR 0x0A # ''  Great job! Try a harder sentence.''"
  by (simp_all add: print_feedback_eq sample_assessment_def dict_get_def grade_of_def
      closing_of_def row_of_def flagged_def marker_of_def all_triples_def)

end
